theory Spec2Isabelle
  imports Main "HOL-Library.Word"
begin

section \<open>The expression IR of \<^verbatim>\<open>torch/csrc/jit/fuser/common/ir.h\<close>\<close>

text \<open>
  The header defines the node classes of a small typed expression IR: \<^verbatim>\<open>Cast\<close>, the four
  binary operators sharing \<^verbatim>\<open>BinaryOpNode\<close>, the immediates, \<^verbatim>\<open>Variable\<close>, \<^verbatim>\<open>Block\<close>,
  \<^verbatim>\<open>For\<close> and \<^verbatim>\<open>EmptyExpr\<close>. Every factory has the shape \<^verbatim>\<open>Expr(new C(...))\<close>: it
  allocates a node and returns a handle to it. Handles are compared by the node they
  refer to, so the model keeps an explicit store of nodes and a handle is an address in it.

  The header includes \<^verbatim>\<open>expr.h\<close>, which is not part of the sources at hand. What the
  node classes use from it (\<^verbatim>\<open>Dtype\<close>, \<^verbatim>\<open>kInt32\<close>, \<^verbatim>\<open>kFloat32\<close>, \<^verbatim>\<open>kNull\<close>,
  \<^verbatim>\<open>ToDtype\<close>, \<^verbatim>\<open>BinaryOpDtype\<close>, \<^verbatim>\<open>Expr\<close>, \<^verbatim>\<open>ExprNode\<close>) is modelled from the
  specification; each such definition says so.
\<close>

subsection \<open>Failures\<close>

text \<open>
  \<^item> \<open>LaneMismatch\<close> and \<open>UnsupportedKinds\<close> are the two construction-time failures of
    type promotion named by the specification.
  \<^item> \<open>OutOfRange\<close> is the out-of-range condition the specification names for
    \<^verbatim>\<open>Block::expr\<close>.
  \<^item> \<open>UndefinedBehaviour\<close> stands for an operation to which C++ assigns no behaviour:
    an unchecked \<^verbatim>\<open>operator[]\<close> outside the vector, a member called through a handle
    that refers to no node or to a node of another class.
\<close>

datatype error = LaneMismatch | UnsupportedKinds | OutOfRange | UndefinedBehaviour

subsection \<open>Scalar type descriptors\<close>

text \<open>
  Modelled from the spec: the class \<^verbatim>\<open>Dtype\<close> is declared in a header that is missing.
  The specification gives it as \<^verbatim>\<open>{ kind: enum{None, Int32, Float32, ...}, lanes:
  positive integer }\<close>, two descriptors being equal iff kind and lanes match, which is
  the equality of the record.
\<close>

datatype ScalarKind = NoneKind | Int32 | Float32

record Dtype =
  scalar_type :: ScalarKind
  lanes :: nat

text \<open>
  Modelled from the spec: the constants \<^verbatim>\<open>kNull\<close>, \<^verbatim>\<open>kInt32\<close> and \<^verbatim>\<open>kFloat32\<close> are
  declared in the missing header. The specification fixes the immediates to Int32 and
  Float32 with one lane, and the structural nodes to the type None.
\<close>

definition kNull :: Dtype where
  "kNull = \<lparr>scalar_type = NoneKind, lanes = 1\<rparr>"

definition kInt32 :: Dtype where
  "kInt32 = \<lparr>scalar_type = Int32, lanes = 1\<rparr>"

definition kFloat32 :: Dtype where
  "kFloat32 = \<lparr>scalar_type = Float32, lanes = 1\<rparr>"

text \<open>
  Modelled from the spec: the constructor \<^verbatim>\<open>Dtype(Dtype, int lanes)\<close> used by \<^verbatim>\<open>cast\<close> is
  declared in the missing header. The specification says it yields a descriptor of the
  given scalar kind that carries the given lane count.
\<close>

definition Dtype_lanes :: "Dtype \<Rightarrow> nat \<Rightarrow> Dtype" where
  "Dtype_lanes t n = \<lparr>scalar_type = scalar_type t, lanes = n\<rparr>"

text \<open>
  Modelled from the spec: \<^verbatim>\<open>ToDtype<T>()\<close> is declared in the missing header; it maps a
  caller-level scalar type to its descriptor. The two host types are the ones the
  immediates of the header store: \<^verbatim>\<open>int\<close> (an \<^verbatim>\<open>IntImm\<close> is \<^verbatim>\<open>kInt32\<close>) and \<^verbatim>\<open>float\<close>
  (a \<^verbatim>\<open>FloatImm\<close> is \<^verbatim>\<open>kFloat32\<close>).
\<close>

datatype HostType = HostInt | HostFloat

fun ToDtype :: "HostType \<Rightarrow> Dtype" where
  "ToDtype HostInt = kInt32"
| "ToDtype HostFloat = kFloat32"

text \<open>
  Modelled from the spec: the rank table of the promotion. Only Int32 and Float32 have a
  rank (Int32 below Float32); the kind None is absent from the table.
\<close>

fun kind_rank :: "ScalarKind \<Rightarrow> nat option" where
  "kind_rank Int32 = Some 0"
| "kind_rank Float32 = Some 1"
| "kind_rank NoneKind = None"

text \<open>
  Modelled from the spec: \<^verbatim>\<open>BinaryOpDtype\<close> (the specification's \<open>promote\<close>) is declared
  in the missing header. By the specification \<open>promote(x, x) = x\<close>; descriptors with
  unequal lane counts fail with the lane-mismatch condition; otherwise the operand whose
  kind has the higher rank wins, and a kind absent from the rank table is a hard failure.
\<close>

definition BinaryOpDtype :: "Dtype \<Rightarrow> Dtype \<Rightarrow> error + Dtype" where
  "BinaryOpDtype a b =
     (if a = b then Inr a
      else if lanes a = lanes b then
        (case (kind_rank (scalar_type a), kind_rank (scalar_type b)) of
           (Some ra, Some rb) \<Rightarrow> Inr (if ra < rb then b else a)
         | _ \<Rightarrow> Inl UnsupportedKinds)
      else Inl LaneMismatch)"

subsection \<open>Nodes, handles and the store\<close>

text \<open>The enum \<^verbatim>\<open>IRNodeType\<close> of the header.\<close>

datatype IRNodeType = kAdd | kSub | kMul | kDiv

text \<open>
  Modelled from the spec: \<^verbatim>\<open>Expr\<close> is declared in the missing header; the specification
  describes it as a shared reference to exactly one heap-allocated node. A handle is the
  address of its node.
\<close>

type_synonym Expr = nat

text \<open>
  The private fields of each node class, one constructor per class. The classes
  \<^verbatim>\<open>Add\<close>, \<^verbatim>\<open>Sub\<close>, \<^verbatim>\<open>Mul\<close> and \<^verbatim>\<open>Div\<close> add nothing to \<^verbatim>\<open>BinaryOpNode\<close> but the tag
  they pass to its constructor, so the tag \<^verbatim>\<open>expr_type_\<close> tells them apart.
  \<^verbatim>\<open>int\<close> is a 32-bit word read as two's complement; a \<^verbatim>\<open>float\<close> is stored as its 32-bit
  pattern, since no operation of the header computes with it.
\<close>

datatype NodeFields =
    Cast Expr
  | BinaryOpNode Expr Expr IRNodeType
  | IntImm "32 word"
  | FloatImm "32 word"
  | Variable string
  | Block "Expr list"
  | For Expr Expr Expr Expr
  | EmptyExpr

text \<open>
  Every node class derives from \<^verbatim>\<open>ExprNode\<close>, whose constructor receives the node's
  descriptor (\<^verbatim>\<open>ExprNodeBase(dtype)\<close>).
\<close>

record ExprNode =
  dtype :: Dtype
  members :: NodeFields

type_synonym Store = "ExprNode list"

text \<open>
  \<^verbatim>\<open>Expr(new C(...))\<close>: the node gets an address that no node of the store has, and the
  store is never shrunk (the model does not release nodes, so every handle stays valid).
  The addresses are the positions in the store; only their being distinct is meaningful.
\<close>

definition Expr_new :: "ExprNode \<Rightarrow> Store \<Rightarrow> Expr \<times> Store" where
  "Expr_new n h = (length h, h @ [n])"

text \<open>
  Modelled from the spec: dereferencing a handle and \<^verbatim>\<open>Expr::dtype()\<close> belong to the
  missing header. A handle that refers to a node of the store exposes that node; any
  other handle is not a handle the factories can have produced.
\<close>

definition Expr_node :: "Store \<Rightarrow> Expr \<Rightarrow> error + ExprNode" where
  "Expr_node h e = (if e < length h then Inr (h ! e) else Inl UndefinedBehaviour)"

definition Expr_dtype :: "Store \<Rightarrow> Expr \<Rightarrow> error + Dtype" where
  "Expr_dtype h e = (case Expr_node h e of Inl err \<Rightarrow> Inl err | Inr n \<Rightarrow> Inr (dtype n))"

subsection \<open>Cast\<close>

definition src_value :: "ExprNode \<Rightarrow> error + Expr" where
  "src_value n = (case members n of Cast s \<Rightarrow> Inr s | _ \<Rightarrow> Inl UndefinedBehaviour)"

definition Cast_make :: "Dtype \<Rightarrow> Expr \<Rightarrow> Store \<Rightarrow> Expr \<times> Store" where
  "Cast_make dt src h = Expr_new \<lparr>dtype = dt, members = Cast src\<rparr> h"

text \<open>
  \<^verbatim>\<open>cast<T>(src_value)\<close>: the template argument is the host type \<open>T\<close>; the descriptor of the
  source is read through its handle.
\<close>

definition cast :: "HostType \<Rightarrow> Expr \<Rightarrow> Store \<Rightarrow> error + Expr \<times> Store" where
  "cast T src h =
     (case Expr_dtype h src of
        Inl err \<Rightarrow> Inl err
      | Inr d \<Rightarrow> Inr (Cast_make (Dtype_lanes (ToDtype T) (lanes d)) src h))"

subsection \<open>Binary operators\<close>

definition lhs :: "ExprNode \<Rightarrow> error + Expr" where
  "lhs n = (case members n of BinaryOpNode l r t \<Rightarrow> Inr l | _ \<Rightarrow> Inl UndefinedBehaviour)"

definition rhs :: "ExprNode \<Rightarrow> error + Expr" where
  "rhs n = (case members n of BinaryOpNode l r t \<Rightarrow> Inr r | _ \<Rightarrow> Inl UndefinedBehaviour)"

definition expr_type :: "ExprNode \<Rightarrow> error + IRNodeType" where
  "expr_type n = (case members n of BinaryOpNode l r t \<Rightarrow> Inr t | _ \<Rightarrow> Inl UndefinedBehaviour)"

definition CastIfNeeded :: "Expr \<Rightarrow> Dtype \<Rightarrow> Store \<Rightarrow> error + Expr \<times> Store" where
  "CastIfNeeded expr dst_dtype h =
     (case Expr_dtype h expr of
        Inl err \<Rightarrow> Inl err
      | Inr d \<Rightarrow> if d = dst_dtype then Inr (expr, h) else Inr (Cast_make dst_dtype expr h))"

text \<open>
  The constructor of \<^verbatim>\<open>BinaryOpNode\<close> behind \<^verbatim>\<open>make\<close>: the base class is initialised with
  the promoted descriptor, then \<^verbatim>\<open>lhs_\<close> and \<^verbatim>\<open>rhs_\<close> in this order, each through
  \<^verbatim>\<open>CastIfNeeded\<close>. A failure of the promotion leaves no node behind. The finished node
  is entered into the store after the casts its constructor allocates.
\<close>

definition BinaryOpNode_make ::
    "IRNodeType \<Rightarrow> Expr \<Rightarrow> Expr \<Rightarrow> Store \<Rightarrow> error + Expr \<times> Store" where
  "BinaryOpNode_make op lhs_v rhs_v h =
     (case Expr_dtype h lhs_v of
        Inl err \<Rightarrow> Inl err
      | Inr dl \<Rightarrow>
     (case Expr_dtype h rhs_v of
        Inl err \<Rightarrow> Inl err
      | Inr dr \<Rightarrow>
     (case BinaryOpDtype dl dr of
        Inl err \<Rightarrow> Inl err
      | Inr d \<Rightarrow>
     (case CastIfNeeded lhs_v d h of
        Inl err \<Rightarrow> Inl err
      | Inr (l, h1) \<Rightarrow>
     (case CastIfNeeded rhs_v d h1 of
        Inl err \<Rightarrow> Inl err
      | Inr (r, h2) \<Rightarrow>
          Inr (Expr_new \<lparr>dtype = d, members = BinaryOpNode l r op\<rparr> h2))))))"

definition Add_make :: "Expr \<Rightarrow> Expr \<Rightarrow> Store \<Rightarrow> error + Expr \<times> Store" where
  "Add_make = BinaryOpNode_make kAdd"

definition Sub_make :: "Expr \<Rightarrow> Expr \<Rightarrow> Store \<Rightarrow> error + Expr \<times> Store" where
  "Sub_make = BinaryOpNode_make kSub"

definition Mul_make :: "Expr \<Rightarrow> Expr \<Rightarrow> Store \<Rightarrow> error + Expr \<times> Store" where
  "Mul_make = BinaryOpNode_make kMul"

definition Div_make :: "Expr \<Rightarrow> Expr \<Rightarrow> Store \<Rightarrow> error + Expr \<times> Store" where
  "Div_make = BinaryOpNode_make kDiv"

subsection \<open>Immediates and variables\<close>

definition IntImm_make :: "32 word \<Rightarrow> Store \<Rightarrow> Expr \<times> Store" where
  "IntImm_make v h = Expr_new \<lparr>dtype = kInt32, members = IntImm v\<rparr> h"

definition IntImm_value :: "ExprNode \<Rightarrow> error + 32 word" where
  "IntImm_value n = (case members n of IntImm v \<Rightarrow> Inr v | _ \<Rightarrow> Inl UndefinedBehaviour)"

definition FloatImm_make :: "32 word \<Rightarrow> Store \<Rightarrow> Expr \<times> Store" where
  "FloatImm_make v h = Expr_new \<lparr>dtype = kFloat32, members = FloatImm v\<rparr> h"

definition FloatImm_value :: "ExprNode \<Rightarrow> error + 32 word" where
  "FloatImm_value n = (case members n of FloatImm v \<Rightarrow> Inr v | _ \<Rightarrow> Inl UndefinedBehaviour)"

definition Variable_make :: "string \<Rightarrow> Dtype \<Rightarrow> Store \<Rightarrow> Expr \<times> Store" where
  "Variable_make hint dt h = Expr_new \<lparr>dtype = dt, members = Variable hint\<rparr> h"

text \<open>The overload \<^verbatim>\<open>Variable::make(Dtype)\<close> passes the empty name hint.\<close>

definition Variable_make_unnamed :: "Dtype \<Rightarrow> Store \<Rightarrow> Expr \<times> Store" where
  "Variable_make_unnamed dt h = Expr_new \<lparr>dtype = dt, members = Variable ''''\<rparr> h"

definition name_hint :: "ExprNode \<Rightarrow> error + string" where
  "name_hint n = (case members n of Variable s \<Rightarrow> Inr s | _ \<Rightarrow> Inl UndefinedBehaviour)"

subsection \<open>Block, For and EmptyExpr\<close>

definition Block_make :: "Expr list \<Rightarrow> Store \<Rightarrow> Expr \<times> Store" where
  "Block_make exprs h = Expr_new \<lparr>dtype = kNull, members = Block exprs\<rparr> h"

text \<open>
  \<^verbatim>\<open>int nexprs() const { return exprs_.size(); }\<close>: the size is narrowed to a 32-bit
  \<^verbatim>\<open>int\<close>, which keeps it modulo \<open>2 ^ 32\<close>, read as two's complement. The result is
  the value of that \<^verbatim>\<open>int\<close>.
\<close>

definition nexprs :: "ExprNode \<Rightarrow> error + int" where
  "nexprs n =
     (case members n of
        Block exprs \<Rightarrow> Inr (sint (word_of_nat (length exprs) :: 32 word))
      | _ \<Rightarrow> Inl UndefinedBehaviour)"

text \<open>
  \<^verbatim>\<open>const Expr& expr(int index) const { return exprs_[index]; }\<close>: the index is
  converted to the vector's unsigned size type, where a negative \<^verbatim>\<open>int\<close> is larger than
  any size, and \<^verbatim>\<open>operator[]\<close> does not check it.
\<close>

definition expr :: "ExprNode \<Rightarrow> 32 word \<Rightarrow> error + Expr" where
  "expr n index =
     (case members n of
        Block exprs \<Rightarrow>
          if 0 \<le> sint index \<and> nat (sint index) < length exprs
          then Inr (exprs ! nat (sint index))
          else Inl UndefinedBehaviour
      | _ \<Rightarrow> Inl UndefinedBehaviour)"

text \<open>
  The access as the specification words it, for comparison with \<open>expr\<close>: the \<open>i\<close>-th
  handle, and an out-of-range condition for an index outside \<open>[0, nexprs())\<close>.
\<close>

definition expr_spec :: "ExprNode \<Rightarrow> 32 word \<Rightarrow> error + Expr" where
  "expr_spec n index =
     (case members n of
        Block exprs \<Rightarrow>
          if 0 \<le> sint index \<and> nat (sint index) < length exprs
          then Inr (exprs ! nat (sint index))
          else Inl OutOfRange
      | _ \<Rightarrow> Inl UndefinedBehaviour)"

definition For_make :: "Expr \<Rightarrow> Expr \<Rightarrow> Expr \<Rightarrow> Expr \<Rightarrow> Store \<Rightarrow> Expr \<times> Store" where
  "For_make var start stop body h =
     Expr_new \<lparr>dtype = kNull, members = For var start stop body\<rparr> h"

definition var :: "ExprNode \<Rightarrow> error + Expr" where
  "var n = (case members n of For v s e b \<Rightarrow> Inr v | _ \<Rightarrow> Inl UndefinedBehaviour)"

definition start :: "ExprNode \<Rightarrow> error + Expr" where
  "start n = (case members n of For v s e b \<Rightarrow> Inr s | _ \<Rightarrow> Inl UndefinedBehaviour)"

definition stop :: "ExprNode \<Rightarrow> error + Expr" where
  "stop n = (case members n of For v s e b \<Rightarrow> Inr e | _ \<Rightarrow> Inl UndefinedBehaviour)"

definition body :: "ExprNode \<Rightarrow> error + Expr" where
  "body n = (case members n of For v s e b \<Rightarrow> Inr b | _ \<Rightarrow> Inl UndefinedBehaviour)"

definition EmptyExpr_make :: "Store \<Rightarrow> Expr \<times> Store" where
  "EmptyExpr_make h = Expr_new \<lparr>dtype = kNull, members = EmptyExpr\<rparr> h"

subsection \<open>Concrete stores and nodes\<close>

text \<open>
  The store after \<^verbatim>\<open>IntImm::make(3)\<close> and \<^verbatim>\<open>FloatImm::make(2.0)\<close> (\<open>0x40000000\<close> is the bit
  pattern of the float \<open>2.0\<close>), the store after \<^verbatim>\<open>IntImm::make(3)\<close> and
  \<^verbatim>\<open>IntImm::make(4)\<close> with the node \<^verbatim>\<open>Add::make\<close> builds over it, a store of three
  \<^verbatim>\<open>EmptyExpr\<close> nodes with the block over them, a block holding \<open>2 ^ 31\<close> copies of one
  handle, and a store with one four-lane float variable.
\<close>

definition int3_float2 :: Store where
  "int3_float2 =
     [\<lparr>dtype = kInt32, members = IntImm 3\<rparr>, \<lparr>dtype = kFloat32, members = FloatImm 0x40000000\<rparr>]"

definition int3_int4 :: Store where
  "int3_int4 =
     [\<lparr>dtype = kInt32, members = IntImm 3\<rparr>, \<lparr>dtype = kInt32, members = IntImm 4\<rparr>]"

definition add_3_4 :: ExprNode where
  "add_3_4 = \<lparr>dtype = kInt32, members = BinaryOpNode 0 1 kAdd\<rparr>"

definition empty3 :: Store where
  "empty3 = [\<lparr>dtype = kNull, members = EmptyExpr\<rparr>, \<lparr>dtype = kNull, members = EmptyExpr\<rparr>,
             \<lparr>dtype = kNull, members = EmptyExpr\<rparr>]"

definition block3 :: ExprNode where
  "block3 = \<lparr>dtype = kNull, members = Block [0, 1, 2]\<rparr>"

definition huge_block :: ExprNode where
  "huge_block = \<lparr>dtype = kNull, members = Block (replicate 2147483648 0)\<rparr>"

definition float4_var :: Store where
  "float4_var = [\<lparr>dtype = \<lparr>scalar_type = Float32, lanes = 4\<rparr>, members = Variable ''x''\<rparr>]"

section \<open>Properties\<close>

subsection \<open>The store only grows\<close>

lemma Expr_node_append_old:
  "e < length h \<Longrightarrow> Expr_node (h @ ns) e = Expr_node h e"
  by (simp add: Expr_node_def nth_append)

lemma Expr_node_append_new: "Expr_node (h @ [n]) (length h) = Inr n"
  by (simp add: Expr_node_def)

lemma Expr_node_valid: "Expr_node h e = Inr n \<Longrightarrow> e < length h"
  by (simp add: Expr_node_def split: if_splits)

lemma Expr_dtype_valid: "Expr_dtype h e = Inr d \<Longrightarrow> e < length h"
  by (auto simp: Expr_dtype_def dest: Expr_node_valid split: sum.splits)

lemma Expr_dtype_append_old:
  "e < length h \<Longrightarrow> Expr_dtype (h @ ns) e = Expr_dtype h e"
  by (simp add: Expr_dtype_def Expr_node_append_old)

lemma Expr_dtype_append_new: "Expr_dtype (h @ [n]) (length h) = Inr (dtype n)"
  by (simp add: Expr_dtype_def Expr_node_append_new)

lemma CastIfNeeded_cases:
  assumes "CastIfNeeded e d h = Inr (e', h')"
  shows "(Expr_dtype h e = Inr d \<and> e' = e \<and> h' = h) \<or>
         (Expr_dtype h e \<noteq> Inr d \<and> e < length h \<and> e' = length h \<and>
          h' = h @ [\<lparr>dtype = d, members = Cast e\<rparr>])"
  using assms
  by (auto simp: CastIfNeeded_def Cast_make_def Expr_new_def dest: Expr_dtype_valid
           split: sum.splits if_splits)

lemma CastIfNeeded_dtype:
  assumes "CastIfNeeded e d h = Inr (e', h')"
  shows "Expr_dtype h' e' = Inr d \<and> e' < length h' \<and> (\<exists>ns. h' = h @ ns)"
  using CastIfNeeded_cases [OF assms]
  by (auto simp: Expr_dtype_append_new dest: Expr_dtype_valid)

lemma BinaryOpNode_make_result:
  assumes "BinaryOpNode_make op lhs_v rhs_v h = Inr (res, h')"
  shows "\<exists>dl dr d l h1 r h2.
           Expr_dtype h lhs_v = Inr dl \<and> Expr_dtype h rhs_v = Inr dr \<and>
           BinaryOpDtype dl dr = Inr d \<and>
           CastIfNeeded lhs_v d h = Inr (l, h1) \<and> CastIfNeeded rhs_v d h1 = Inr (r, h2) \<and>
           res = length h2 \<and> h' = h2 @ [\<lparr>dtype = d, members = BinaryOpNode l r op\<rparr>]"
  using assms
  by (auto simp: BinaryOpNode_make_def Expr_new_def split: sum.splits prod.splits)

subsection \<open>Evaluating the promotion and a first construction\<close>

lemma kInt32_neq_kFloat32: "kInt32 \<noteq> kFloat32" "kFloat32 \<noteq> kInt32"
  by (simp_all add: kInt32_def kFloat32_def)

lemma BinaryOpDtype_Int32_Float32: "BinaryOpDtype kInt32 kFloat32 = Inr kFloat32"
  by (simp add: BinaryOpDtype_def kInt32_def kFloat32_def)

lemma BinaryOpDtype_same: "BinaryOpDtype a a = Inr a"
  by (simp add: BinaryOpDtype_def)

lemma Add_make_int3_float2:
  "Add_make 0 1 int3_float2 =
     Inr (3, int3_float2 @ [\<lparr>dtype = kFloat32, members = Cast 0\<rparr>,
                            \<lparr>dtype = kFloat32, members = BinaryOpNode 2 1 kAdd\<rparr>])"
  by (simp add: Add_make_def BinaryOpNode_make_def CastIfNeeded_def Cast_make_def Expr_new_def
        Expr_dtype_def Expr_node_def int3_float2_def BinaryOpDtype_Int32_Float32
        kInt32_neq_kFloat32)

subsection \<open>Narrowing a size to \<^verbatim>\<open>int\<close>\<close>

lemma sint_word_of_nat_small: "n < 2 ^ 31 \<Longrightarrow> sint (word_of_nat n :: 32 word) = int n"
  by (simp add: signed_of_nat signed_take_bit_int_eq_self)

subsection \<open>Type promotion\<close>

text \<open>
  C6. For all descriptors \<open>a\<close> and \<open>b\<close>, \<open>promote(a, b) = promote(b, a)\<close>, failures
  included (both orders fail with the same condition), and \<open>promote(a, a) = a\<close>.
\<close>

theorem BinaryOpDtype_commutative_idempotent:
  "BinaryOpDtype a b = BinaryOpDtype b a \<and> BinaryOpDtype a a = Inr a"
proof
  show "BinaryOpDtype a b = BinaryOpDtype b a"
  proof (cases "a = b")
    case True
    then show ?thesis by simp
  next
    case False
    then have kinds: "lanes a = lanes b \<Longrightarrow> scalar_type a \<noteq> scalar_type b"
      by (cases a, cases b) auto
    show ?thesis
    proof (cases "lanes a = lanes b")
      case True
      with kinds have "scalar_type a \<noteq> scalar_type b" by simp
      with False True show ?thesis
        by (cases "scalar_type a"; cases "scalar_type b")
           (auto simp: BinaryOpDtype_def)
    next
      case False
      then show ?thesis by (auto simp: BinaryOpDtype_def)
    qed
  qed
  show "BinaryOpDtype a a = Inr a"
    by (simp add: BinaryOpDtype_def)
qed

subsection \<open>Cast\<close>

text \<open>
  C5. For every descriptor \<open>d\<close> and every handle \<open>e\<close>, \<^verbatim>\<open>Cast::make(d, e)\<close> returns a new
  node (its address refers to no node of the store before the call) that is a Cast of
  descriptor exactly \<open>d\<close> with \<^verbatim>\<open>src_value()\<close> \<open>e\<close>. Nothing is asked of \<open>e\<close>, so this
  includes the case where the descriptor of \<open>e\<close> is already \<open>d\<close>.
\<close>

theorem Cast_make_never_elided:
  "\<exists>r h' n. Cast_make d e h = (r, h') \<and> Expr_node h' r = Inr n \<and> h' = h @ [n] \<and>
     Expr_node h r = Inl UndefinedBehaviour \<and>
     members n = Cast e \<and> dtype n = d \<and> src_value n = Inr e"
  by (simp add: Cast_make_def Expr_new_def Expr_node_def src_value_def)

text \<open>
  For instance casting the integer immediate 3, already of type Int32, to Int32 adds a
  Cast node to the store and returns its handle, not the handle of the immediate.
\<close>

lemma Cast_make_identity_cast:
  "Expr_dtype int3_int4 0 = Inr kInt32 \<and>
   Cast_make kInt32 0 int3_int4 = (2, int3_int4 @ [\<lparr>dtype = kInt32, members = Cast 0\<rparr>])"
  by (simp add: Cast_make_def Expr_new_def Expr_dtype_def Expr_node_def int3_int4_def)

text \<open>
  C10. For every handle \<open>e\<close> of a node of the store, \<^verbatim>\<open>cast<T>(e)\<close> returns a Cast node
  whose descriptor has the scalar kind of \<^verbatim>\<open>ToDtype<T>()\<close> and the lane count of the
  descriptor of \<open>e\<close>, and whose \<^verbatim>\<open>src_value()\<close> is \<open>e\<close>.
\<close>

theorem cast_keeps_lanes:
  assumes "Expr_dtype h e = Inr d"
  shows "\<exists>r h' n. cast T e h = Inr (r, h') \<and> Expr_node h' r = Inr n \<and>
           members n = Cast e \<and> src_value n = Inr e \<and>
           scalar_type (dtype n) = scalar_type (ToDtype T) \<and> lanes (dtype n) = lanes d"
  using assms
  by (simp add: cast_def Cast_make_def Expr_new_def Expr_node_def src_value_def Dtype_lanes_def)

theorem cast_keeps_lanes_witness:
  "Expr_dtype float4_var 0 = Inr \<lparr>scalar_type = Float32, lanes = 4\<rparr> \<and>
   (\<exists>r h' n. cast HostInt 0 float4_var = Inr (r, h') \<and> Expr_node h' r = Inr n \<and>
      members n = Cast 0 \<and> src_value n = Inr 0 \<and>
      scalar_type (dtype n) = Int32 \<and> lanes (dtype n) = 4)"
proof -
  have d: "Expr_dtype float4_var 0 = Inr \<lparr>scalar_type = Float32, lanes = 4\<rparr>"
    by (simp add: Expr_dtype_def Expr_node_def float4_var_def)
  from cast_keeps_lanes [OF d, of HostInt] d show ?thesis
    by (simp add: kInt32_def)
qed

subsection \<open>Binary operators\<close>

text \<open>
  C1. Whenever \<^verbatim>\<open>Add::make\<close>, \<^verbatim>\<open>Sub::make\<close>, \<^verbatim>\<open>Mul::make\<close> or \<^verbatim>\<open>Div::make\<close> accepts its
  two operands and returns a node, the descriptors of the node's \<^verbatim>\<open>lhs()\<close> and \<^verbatim>\<open>rhs()\<close>
  both equal the node's own descriptor.
\<close>

theorem binary_op_operands_share_dtype:
  assumes "mk \<in> {Add_make, Sub_make, Mul_make, Div_make}"
      and "mk lhs_v rhs_v h = Inr (res, h')"
  shows "\<exists>n l r. Expr_node h' res = Inr n \<and> lhs n = Inr l \<and> rhs n = Inr r \<and>
           Expr_dtype h' l = Inr (dtype n) \<and> Expr_dtype h' r = Inr (dtype n)"
proof -
  from assms obtain op where "BinaryOpNode_make op lhs_v rhs_v h = Inr (res, h')"
    by (auto simp: Add_make_def Sub_make_def Mul_make_def Div_make_def)
  from BinaryOpNode_make_result [OF this] obtain d l h1 r h2 where
    l: "CastIfNeeded lhs_v d h = Inr (l, h1)" and
    r: "CastIfNeeded rhs_v d h1 = Inr (r, h2)" and
    res: "res = length h2" and
    h': "h' = h2 @ [\<lparr>dtype = d, members = BinaryOpNode l r op\<rparr>]"
    by blast
  let ?n = "\<lparr>dtype = d, members = BinaryOpNode l r op\<rparr>"
  from CastIfNeeded_dtype [OF l] have dl: "Expr_dtype h1 l = Inr d" and ll: "l < length h1"
    by simp_all
  from CastIfNeeded_dtype [OF r] obtain ns where
    dr: "Expr_dtype h2 r = Inr d" and lr: "r < length h2" and h2: "h2 = h1 @ ns"
    by blast
  have "Expr_dtype h2 l = Inr d"
    using dl ll by (simp add: h2 Expr_dtype_append_old)
  with ll have "Expr_dtype h' l = Inr d"
    by (simp add: h' h2 Expr_dtype_append_old)
  moreover from dr lr have "Expr_dtype h' r = Inr d"
    by (simp add: h' Expr_dtype_append_old)
  moreover have "Expr_node h' res = Inr ?n"
    by (simp add: h' res Expr_node_append_new)
  moreover have "lhs ?n = Inr l" "rhs ?n = Inr r" "dtype ?n = d"
    by (simp_all add: lhs_def rhs_def)
  ultimately show ?thesis by auto
qed

theorem binary_op_operands_share_dtype_witness:
  "Add_make \<in> {Add_make, Sub_make, Mul_make, Div_make} \<and>
   Add_make 0 1 int3_float2 =
     Inr (3, int3_float2 @ [\<lparr>dtype = kFloat32, members = Cast 0\<rparr>,
                            \<lparr>dtype = kFloat32, members = BinaryOpNode 2 1 kAdd\<rparr>]) \<and>
   (\<exists>n l r. Expr_node (int3_float2 @ [\<lparr>dtype = kFloat32, members = Cast 0\<rparr>,
                            \<lparr>dtype = kFloat32, members = BinaryOpNode 2 1 kAdd\<rparr>]) 3 = Inr n \<and>
      lhs n = Inr l \<and> rhs n = Inr r \<and>
      Expr_dtype (int3_float2 @ [\<lparr>dtype = kFloat32, members = Cast 0\<rparr>,
                            \<lparr>dtype = kFloat32, members = BinaryOpNode 2 1 kAdd\<rparr>]) l = Inr (dtype n) \<and>
      Expr_dtype (int3_float2 @ [\<lparr>dtype = kFloat32, members = Cast 0\<rparr>,
                            \<lparr>dtype = kFloat32, members = BinaryOpNode 2 1 kAdd\<rparr>]) r = Inr (dtype n))"
proof -
  have mem: "Add_make \<in> {Add_make, Sub_make, Mul_make, Div_make}" by simp
  show ?thesis
    using binary_op_operands_share_dtype [OF mem Add_make_int3_float2] mem Add_make_int3_float2
    by simp
qed

text \<open>
  C3. \<^verbatim>\<open>Add::make(IntImm::make(3), FloatImm::make(2.0))\<close> returns a node of type Float32
  whose \<^verbatim>\<open>lhs()\<close> is a new Cast node of type Float32 with the integer immediate as its
  \<^verbatim>\<open>src_value()\<close>, and whose \<^verbatim>\<open>rhs()\<close> is the handle of the float immediate itself.
\<close>

theorem Add_int_float_promotes:
  "\<exists>a h1 b h2 r h3 n l c.
     IntImm_make 3 h = (a, h1) \<and> FloatImm_make 0x40000000 h1 = (b, h2) \<and>
     Add_make a b h2 = Inr (r, h3) \<and>
     Expr_node h3 r = Inr n \<and> dtype n = kFloat32 \<and> expr_type n = Inr kAdd \<and>
     lhs n = Inr l \<and> Expr_node h3 l = Inr c \<and> dtype c = kFloat32 \<and> src_value c = Inr a \<and>
     Expr_node h3 a = Inr \<lparr>dtype = kInt32, members = IntImm 3\<rparr> \<and>
     rhs n = Inr b \<and> b \<noteq> l \<and>
     Expr_node h3 b = Inr \<lparr>dtype = kFloat32, members = FloatImm 0x40000000\<rparr>"
  by (simp add: IntImm_make_def FloatImm_make_def Add_make_def BinaryOpNode_make_def
        CastIfNeeded_def Cast_make_def Expr_new_def Expr_dtype_def Expr_node_def
        BinaryOpDtype_Int32_Float32 kInt32_neq_kFloat32 nth_append
        lhs_def rhs_def expr_type_def src_value_def)

text \<open>
  C4. In every binary-op construction an operand whose descriptor equals the descriptor
  of the result is stored as the very handle that was passed, and the construction adds
  to the store the result node and one Cast node for each operand of another descriptor,
  nothing else. In particular \<^verbatim>\<open>Add::make(IntImm::make(3), IntImm::make(4))\<close> has type
  Int32, its \<^verbatim>\<open>lhs()\<close> and \<^verbatim>\<open>rhs()\<close> are the handles of the two immediates, and the result
  node is the only node added.
\<close>

theorem operands_of_result_type_kept:
  "(\<forall>op lhs_v rhs_v h res h' n.
      BinaryOpNode_make op lhs_v rhs_v h = Inr (res, h') \<and> Expr_node h' res = Inr n \<longrightarrow>
        (Expr_dtype h lhs_v = Inr (dtype n) \<longrightarrow> lhs n = Inr lhs_v) \<and>
        (Expr_dtype h rhs_v = Inr (dtype n) \<longrightarrow> rhs n = Inr rhs_v) \<and>
        length h' = length h + 1
          + (if Expr_dtype h lhs_v = Inr (dtype n) then 0 else 1)
          + (if Expr_dtype h rhs_v = Inr (dtype n) then 0 else 1)) \<and>
   (\<forall>h. \<exists>a h1 b h2 r h3 n.
      IntImm_make 3 h = (a, h1) \<and> IntImm_make 4 h1 = (b, h2) \<and>
      Add_make a b h2 = Inr (r, h3) \<and> Expr_node h3 r = Inr n \<and>
      dtype n = kInt32 \<and> lhs n = Inr a \<and> rhs n = Inr b \<and> h3 = h2 @ [n] \<and>
      Expr_node h3 a = Inr \<lparr>dtype = kInt32, members = IntImm 3\<rparr> \<and>
      Expr_node h3 b = Inr \<lparr>dtype = kInt32, members = IntImm 4\<rparr>)"
proof (intro conjI allI impI)
  fix op lhs_v rhs_v h res h' n
  assume a: "BinaryOpNode_make op lhs_v rhs_v h = Inr (res, h') \<and> Expr_node h' res = Inr n"
  from BinaryOpNode_make_result [of op lhs_v rhs_v h res h'] a obtain dl dr d l h1 r h2 where
    lv: "Expr_dtype h lhs_v = Inr dl" and rv: "Expr_dtype h rhs_v = Inr dr" and
    l: "CastIfNeeded lhs_v d h = Inr (l, h1)" and
    r: "CastIfNeeded rhs_v d h1 = Inr (r, h2)" and
    res: "res = length h2" and
    h': "h' = h2 @ [\<lparr>dtype = d, members = BinaryOpNode l r op\<rparr>]"
    by blast
  from a have n: "n = \<lparr>dtype = d, members = BinaryOpNode l r op\<rparr>"
    by (simp add: h' res Expr_node_append_new)
  have h1: "\<exists>ns. h1 = h @ ns"
    using CastIfNeeded_dtype [OF l] by simp
  from rv have "rhs_v < length h" by (rule Expr_dtype_valid)
  with h1 have rd: "Expr_dtype h1 rhs_v = Expr_dtype h rhs_v"
    by (auto simp: Expr_dtype_append_old)
  show "lhs n = Inr lhs_v" if "Expr_dtype h lhs_v = Inr (dtype n)"
    using that CastIfNeeded_cases [OF l] by (auto simp: n lhs_def)
  show "rhs n = Inr rhs_v" if "Expr_dtype h rhs_v = Inr (dtype n)"
    using that CastIfNeeded_cases [OF r] rd by (auto simp: n rhs_def)
  show "length h' = length h + 1
          + (if Expr_dtype h lhs_v = Inr (dtype n) then 0 else 1)
          + (if Expr_dtype h rhs_v = Inr (dtype n) then 0 else 1)"
    using CastIfNeeded_cases [OF l] CastIfNeeded_cases [OF r] rd
    by (auto simp: n h')
next
  fix h
  show "\<exists>a h1 b h2 r h3 n.
      IntImm_make 3 h = (a, h1) \<and> IntImm_make 4 h1 = (b, h2) \<and>
      Add_make a b h2 = Inr (r, h3) \<and> Expr_node h3 r = Inr n \<and>
      dtype n = kInt32 \<and> lhs n = Inr a \<and> rhs n = Inr b \<and> h3 = h2 @ [n] \<and>
      Expr_node h3 a = Inr \<lparr>dtype = kInt32, members = IntImm 3\<rparr> \<and>
      Expr_node h3 b = Inr \<lparr>dtype = kInt32, members = IntImm 4\<rparr>"
    by (simp add: IntImm_make_def Add_make_def BinaryOpNode_make_def CastIfNeeded_def
          Expr_new_def Expr_dtype_def Expr_node_def BinaryOpDtype_same nth_append
          lhs_def rhs_def)
qed

theorem operands_of_result_type_kept_witness:
  "BinaryOpNode_make kAdd 0 1 int3_int4 = Inr (2, int3_int4 @ [add_3_4]) \<and>
   Expr_node (int3_int4 @ [add_3_4]) 2 = Inr add_3_4 \<and>
   Expr_dtype int3_int4 0 = Inr (dtype add_3_4) \<and>
   Expr_dtype int3_int4 1 = Inr (dtype add_3_4) \<and>
   lhs add_3_4 = Inr 0 \<and> rhs add_3_4 = Inr 1 \<and>
   length (int3_int4 @ [add_3_4]) = length int3_int4 + 1"
proof -
  have mk: "BinaryOpNode_make kAdd 0 1 int3_int4 = Inr (2, int3_int4 @ [add_3_4])"
    by (simp add: BinaryOpNode_make_def CastIfNeeded_def Expr_new_def Expr_dtype_def
          Expr_node_def BinaryOpDtype_same int3_int4_def add_3_4_def)
  have nd: "Expr_node (int3_int4 @ [add_3_4]) 2 = Inr add_3_4"
    by (simp add: Expr_node_def int3_int4_def)
  have dl: "Expr_dtype int3_int4 0 = Inr (dtype add_3_4)"
    and dr: "Expr_dtype int3_int4 1 = Inr (dtype add_3_4)"
    by (simp_all add: Expr_dtype_def Expr_node_def int3_int4_def add_3_4_def)
  from operands_of_result_type_kept mk nd
  have "(Expr_dtype int3_int4 0 = Inr (dtype add_3_4) \<longrightarrow> lhs add_3_4 = Inr 0) \<and>
        (Expr_dtype int3_int4 1 = Inr (dtype add_3_4) \<longrightarrow> rhs add_3_4 = Inr 1)"
    by blast
  with mk nd dl dr show ?thesis by simp
qed

subsection \<open>Variable\<close>

text \<open>
  C9. Two calls of \<^verbatim>\<open>Variable::make\<close> with the same name hint and the same descriptor
  return different handles, each referring to a node with that name hint and descriptor;
  more generally the handle \<^verbatim>\<open>Variable::make\<close> returns differs from the handle of every
  node already in the store.
\<close>

theorem Variable_make_fresh:
  "(\<exists>v1 h1 v2 h2.
      Variable_make x d h = (v1, h1) \<and> Variable_make x d h1 = (v2, h2) \<and> v1 \<noteq> v2 \<and>
      Expr_node h2 v1 = Inr \<lparr>dtype = d, members = Variable x\<rparr> \<and>
      Expr_node h2 v2 = Inr \<lparr>dtype = d, members = Variable x\<rparr>) \<and>
   (\<forall>e n. Expr_node h e = Inr n \<longrightarrow> fst (Variable_make x d h) \<noteq> e)"
  by (auto simp: Variable_make_def Expr_new_def Expr_node_def nth_append)

theorem Variable_make_fresh_witness:
  "Expr_node int3_int4 1 = Inr \<lparr>dtype = kInt32, members = IntImm 4\<rparr> \<and>
   fst (Variable_make ''x'' kInt32 int3_int4) \<noteq> 1"
proof -
  have nd: "Expr_node int3_int4 1 = Inr \<lparr>dtype = kInt32, members = IntImm 4\<rparr>"
    by (simp add: Expr_node_def int3_int4_def)
  from Variable_make_fresh [of "''x''" kInt32 int3_int4] nd
  have "fst (Variable_make ''x'' kInt32 int3_int4) \<noteq> 1" by blast
  with nd show ?thesis by simp
qed

subsection \<open>Block\<close>

text \<open>
  C8, as amended. For every sequence \<open>es\<close> of handles, \<^verbatim>\<open>Block::make(es)\<close> returns a node of
  type None that stores \<open>es\<close> verbatim: \<^verbatim>\<open>expr(i)\<close> returns the \<open>i\<close>-th handle for every
  \<^verbatim>\<open>int\<close> \<open>i\<close> with \<open>0 \<le> i < length es\<close>, and \<^verbatim>\<open>nexprs()\<close> is \<open>length es\<close> provided
  \<open>length es < 2 ^ 31\<close>.
\<close>

theorem Block_make_verbatim:
  "\<exists>b h' n. Block_make es h = (b, h') \<and> Expr_node h' b = Inr n \<and>
     members n = Block es \<and> dtype n = kNull \<and> scalar_type (dtype n) = NoneKind \<and>
     (length es < 2 ^ 31 \<longrightarrow> nexprs n = Inr (int (length es))) \<and>
     (\<forall>i. 0 \<le> sint i \<and> sint i < int (length es) \<longrightarrow> expr n i = Inr (es ! nat (sint i)))"
  by (auto simp: Block_make_def Expr_new_def Expr_node_def nexprs_def expr_def kNull_def
        sint_word_of_nat_small)

text \<open>
  The bound is needed: \<^verbatim>\<open>nexprs()\<close> returns an \<^verbatim>\<open>int\<close>, and a block of \<open>2 ^ 31\<close> handles
  reports \<open>- 2 ^ 31\<close>.
\<close>

theorem Block_make_verbatim_counterexample:
  "Block_make (replicate 2147483648 0) empty3 = (3, empty3 @ [huge_block]) \<and>
   Expr_node (empty3 @ [huge_block]) 3 = Inr huge_block \<and>
   length (replicate 2147483648 (0 :: Expr)) = 2147483648 \<and>
   nexprs huge_block = Inr (- 2147483648) \<and>
   nexprs huge_block \<noteq> Inr (int (length (replicate 2147483648 (0 :: Expr))))"
  by (simp add: Block_make_def Expr_new_def Expr_node_def nexprs_def huge_block_def empty3_def)

theorem Block_make_verbatim_witness:
  "Block_make [0, 1, 2] empty3 = (3, empty3 @ [block3]) \<and>
   Expr_node (empty3 @ [block3]) 3 = Inr block3 \<and> dtype block3 = kNull \<and>
   length [0, 1, 2 :: Expr] < 2 ^ 31 \<and> nexprs block3 = Inr 3 \<and>
   0 \<le> sint (1 :: 32 word) \<and> sint (1 :: 32 word) < int (length [0, 1, 2 :: Expr]) \<and>
   expr block3 1 = Inr 1"
proof -
  have mk: "Block_make [0, 1, 2] empty3 = (3, empty3 @ [block3])"
    by (simp add: Block_make_def Expr_new_def block3_def empty3_def)
  have len: "length [0, 1, 2 :: Expr] < 2 ^ 31" by simp
  have idx: "0 \<le> sint (1 :: 32 word) \<and> sint (1 :: 32 word) < int (length [0, 1, 2 :: Expr])"
    by simp
  from Block_make_verbatim [of "[0, 1, 2]" empty3] mk len idx
  have "nexprs block3 = Inr 3 \<and> expr block3 1 = Inr 1"
    by (auto simp: Expr_node_def empty3_def)
  with mk len idx show ?thesis
    by (simp add: Expr_node_def empty3_def block3_def)
qed

text \<open>
  C2, as amended. For every Block node and every \<^verbatim>\<open>int\<close> index outside \<open>[0, n)\<close>, where \<open>n\<close>
  is the number of handles the block stores (and \<open>n\<close> is \<^verbatim>\<open>nexprs()\<close> when \<open>n < 2 ^ 31\<close>),
  \<^verbatim>\<open>expr(index)\<close> is an unchecked access outside the vector: its behaviour is undefined,
  and it is not the out-of-range failure of the checked access \<open>expr_spec\<close>.
\<close>

theorem expr_unchecked:
  assumes "members b = Block exprs"
      and "\<not> (0 \<le> sint i \<and> sint i < int (length exprs))"
  shows "expr b i = Inl UndefinedBehaviour \<and> expr b i \<noteq> expr_spec b i \<and>
         (length exprs < 2 ^ 31 \<longrightarrow> nexprs b = Inr (int (length exprs)))"
  using assms
  by (auto simp: expr_def expr_spec_def nexprs_def sint_word_of_nat_small)

text \<open>
  The claim as stated fails on a block of three handles at index 3: no out-of-range
  condition is reported.
\<close>

theorem expr_unchecked_counterexample:
  "nexprs block3 = Inr 3 \<and> \<not> (0 \<le> sint (3 :: 32 word) \<and> sint (3 :: 32 word) < 3) \<and>
   expr block3 3 = Inl UndefinedBehaviour \<and> expr block3 3 \<noteq> Inl OutOfRange"
  by (simp add: nexprs_def expr_def block3_def)

theorem expr_unchecked_witness:
  "members block3 = Block [0, 1, 2] \<and>
   \<not> (0 \<le> sint (3 :: 32 word) \<and> sint (3 :: 32 word) < int (length [0, 1, 2 :: Expr])) \<and>
   length [0, 1, 2 :: Expr] < 2 ^ 31 \<and>
   expr block3 3 = Inl UndefinedBehaviour \<and> expr block3 3 \<noteq> expr_spec block3 3 \<and>
   nexprs block3 = Inr 3"
proof -
  have m: "members block3 = Block [0, 1, 2]" by (simp add: block3_def)
  have out: "\<not> (0 \<le> sint (3 :: 32 word) \<and> sint (3 :: 32 word) < int (length [0, 1, 2 :: Expr]))"
    by simp
  have len: "length [0, 1, 2 :: Expr] < 2 ^ 31" by simp
  from expr_unchecked [OF m out] len
  have "expr block3 3 = Inl UndefinedBehaviour \<and> expr block3 3 \<noteq> expr_spec block3 3 \<and>
        nexprs block3 = Inr 3"
    by auto
  with m out len show ?thesis by blast
qed

subsection \<open>For\<close>

text \<open>
  C7. For all four handles \<open>v\<close>, \<open>s\<close>, \<open>e\<close>, \<open>b\<close>, \<^verbatim>\<open>For::make(v, s, e, b)\<close> returns a node of
  type None whose \<^verbatim>\<open>var()\<close>, \<^verbatim>\<open>start()\<close>, \<^verbatim>\<open>stop()\<close> and \<^verbatim>\<open>body()\<close> are the four handles.
  Nothing is asked of \<open>v\<close>: the construction cannot fail and does not look at the node
  \<open>v\<close> refers to.
\<close>

theorem For_make_stores_handles:
  "\<exists>r h' n. For_make v s e b h = (r, h') \<and> Expr_node h' r = Inr n \<and>
     dtype n = kNull \<and> scalar_type (dtype n) = NoneKind \<and>
     var n = Inr v \<and> start n = Inr s \<and> stop n = Inr e \<and> body n = Inr b"
  by (simp add: For_make_def Expr_new_def Expr_node_def var_def start_def stop_def body_def
        kNull_def)

text \<open>For instance a loop whose \<^verbatim>\<open>var\<close> is the integer immediate 3 is built like any other.\<close>

lemma For_make_over_immediate:
  "For_make 0 0 1 1 int3_int4 =
     (2, int3_int4 @ [\<lparr>dtype = kNull, members = For 0 0 1 1\<rparr>]) \<and>
   Expr_node int3_int4 0 = Inr \<lparr>dtype = kInt32, members = IntImm 3\<rparr>"
  by (simp add: For_make_def Expr_new_def Expr_node_def int3_int4_def)

end
